theory Spec2Isabelle
  imports Main "HOL-Library.Sublist"
begin

section \<open>Success stories: the data model of \<^verbatim>\<open>successstories/models.py\<close>\<close>

text \<open>
  The module declares two models, \<^verbatim>\<open>StoryCategory\<close> and \<^verbatim>\<open>Story\<close>, three small
  accessors and a validator on \<^verbatim>\<open>Story\<close>, and two receivers of the \<^verbatim>\<open>post_save\<close>
  signal. Classes become records, \<^verbatim>\<open>raise\<close> becomes the left injection of a sum, and
  the effects of the receivers (the box table, the purge requests, the mail handed to
  the transport) are fields of an explicit \<open>world\<close> that is passed through.
\<close>

subsection \<open>Python values\<close>

text \<open>
  The receivers read \<^verbatim>\<open>kwargs.get('raw', False)\<close> and branch on its truth value. The
  keyword dictionary is a map from names to the few kinds of value the signal puts
  there.
\<close>

datatype pyval = PyNone | PyBool bool | PyStr string

fun truthy :: "pyval \<Rightarrow> bool" where
  "truthy PyNone = False"
| "truthy (PyBool b) = b"
| "truthy (PyStr s) = (s \<noteq> [])"

type_synonym kwargs = "string \<rightharpoonup> pyval"

definition kwargs_get :: "kwargs \<Rightarrow> string \<Rightarrow> pyval \<Rightarrow> pyval" where
  "kwargs_get kw key dflt = (case kw key of None \<Rightarrow> dflt | Some v \<Rightarrow> v)"

text \<open>
  \<^verbatim>\<open>str(n)\<close> for a Python integer: the decimal digits, most significant first, with a
  leading minus sign for a negative number. \<^verbatim>\<open>"{}".format(n)\<close> produces the same text.
\<close>

definition digit_char :: "nat \<Rightarrow> char" where
  "digit_char d = char_of (48 + d)"

fun digits_nat :: "nat \<Rightarrow> string" where
  "digits_nat n = (if n < 10 then [digit_char n]
                   else digits_nat (n div 10) @ [digit_char (n mod 10)])"

declare digits_nat.simps [simp del]

definition str_int :: "int \<Rightarrow> string" where
  "str_int i = (if i < 0 then CHR ''-'' # digits_nat (nat (- i)) else digits_nat (nat i))"

text \<open>Reading a decimal numeral back, used to say what "decimal representation" means.\<close>

definition digit_val :: "char \<Rightarrow> nat" where
  "digit_val c = of_char c - 48"

definition read_nat :: "string \<Rightarrow> nat" where
  "read_nat s = foldl (\<lambda>a c. 10 * a + digit_val c) 0 s"

definition read_int :: "string \<Rightarrow> int" where
  "read_int s = (case s of
                   [] \<Rightarrow> 0
                 | c # cs \<Rightarrow> if c = CHR ''-'' then - int (read_nat cs) else int (read_nat s))"

text \<open>\<^verbatim>\<open>str(x)\<close> for an optional string: \<^verbatim>\<open>None\<close> prints as the word \<^verbatim>\<open>None\<close>.\<close>

definition str_opt :: "string option \<Rightarrow> string" where
  "str_opt x = (case x of None \<Rightarrow> ''None'' | Some s \<Rightarrow> s)"

subsection \<open>Models\<close>

text \<open>
  \<^verbatim>\<open>NameSlugModel\<close> is the shared base class of \<^verbatim>\<open>StoryCategory\<close>, \<^verbatim>\<open>Story\<close> and
  \<^verbatim>\<open>Company\<close>; the records extend it as the classes inherit from it.
\<close>

record name_slug_model =
  name :: string
  slug :: string

text \<open>
  Modelled from the spec: the \<^verbatim>\<open>Company\<close> model is declared in another application; the
  accessors read its \<^verbatim>\<open>name\<close> (inherited) and its \<^verbatim>\<open>url\<close>.
\<close>

record company = name_slug_model +
  url :: string

text \<open>\<^verbatim>\<open>StoryCategory\<close> adds no field to its base class.\<close>

type_synonym story_category = name_slug_model

text \<open>
  Modelled from the spec: the value of a \<^verbatim>\<open>MarkupField\<close> carries the text as entered and
  its rendered form.
\<close>

record markup =
  raw :: string
  rendered :: string

record story = name_slug_model +
  company_name :: string
  company_url :: string
  company :: "company option"
  category :: story_category
  author :: string
  author_email :: "string option"
  pull_quote :: string
  content :: markup
  is_published :: bool
  featured :: bool
  weight :: int
  image :: "string option"

datatype error = ValidationError string | TransportError string

subsection \<open>Accessors and validation of \<^verbatim>\<open>Story\<close>\<close>

definition get_weight_display :: "story \<Rightarrow> string" where
  "get_weight_display self = str_int (weight self) @ '' %''"

text \<open>
  \<^verbatim>\<open>if self.company:\<close> tests the foreign key: \<^verbatim>\<open>None\<close> is false and a model instance is
  true.
\<close>

definition get_company_name :: "story \<Rightarrow> string" where
  "get_company_name self =
     (case company self of Some c \<Rightarrow> name c | None \<Rightarrow> company_name self)"

definition get_company_url :: "story \<Rightarrow> string" where
  "get_company_url self =
     (case company self of Some c \<Rightarrow> url c | None \<Rightarrow> company_url self)"

definition clean :: "story \<Rightarrow> error + unit" where
  "clean self =
     (if featured self \<and> weight self = 0
        then Inl (ValidationError ''Cannot be a featured story with weight==0'')
      else if weight self > 100
        then Inl (ValidationError ''weight cannot exceed 100'')
      else Inr ())"

section \<open>The receivers of \<^verbatim>\<open>post_save\<close>\<close>

subsection \<open>What the receivers act on\<close>

text \<open>
  Modelled from the spec: \<^verbatim>\<open>EmailMessage\<close> belongs to the framework. The receiver fills
  the subject, the body, the sender, the recipients and a header dictionary, then sets
  \<^verbatim>\<open>content_subtype\<close>. A header value is whatever the receiver stored, which for
  \<^verbatim>\<open>Reply-To\<close> is the nullable \<^verbatim>\<open>author_email\<close>.
\<close>

record email_message =
  subject :: string
  body :: string
  from_email :: string
  to :: "string list"
  headers :: "(string \<times> string option) list"
  content_subtype :: string

text \<open>
  Modelled from the spec: the \<^verbatim>\<open>Box\<close> model of the boxes application, a row with a
  unique label and a content.
\<close>

record box =
  label :: string
  box_content :: string

text \<open>
  The world the receivers change: the persisted stories (by slug, which the storage
  layer keeps unique), the box table (the content stored under each label, the label
  being unique), the paths for which a purge was requested, in order, and the messages
  on which \<^verbatim>\<open>send()\<close> was called, in order.
\<close>

record world =
  stories :: "string \<rightharpoonup> story"
  boxes :: "string \<rightharpoonup> string"
  purged :: "string list"
  send_calls :: "email_message list"

text \<open>
  The collaborators that are configuration or framework code and are not part of the
  module are parameters: the URL resolver, the template renderer, the text of a markup
  value, the configured sender address, and the mail transport, which either accepts a
  message (\<open>None\<close>) or fails with a reason.
\<close>

record env =
  reverse :: "string \<Rightarrow> (string \<times> string) list \<Rightarrow> string"
  render_to_string :: "string \<Rightarrow> (string \<times> story) list \<Rightarrow> string"
  markup_str :: "markup \<Rightarrow> string"
  DEFAULT_FROM_EMAIL :: string
  transport :: "email_message \<Rightarrow> string option"

definition PSF_TO_EMAILS :: "string list" where
  "PSF_TO_EMAILS = [''ewa@python.org'', ''berker.peksag@gmail.com'']"

definition get_absolute_url :: "env \<Rightarrow> story \<Rightarrow> string" where
  "get_absolute_url e self = reverse e ''success_story_detail'' [(''slug'', slug self)]"

text \<open>
  Modelled from the spec: \<^verbatim>\<open>Box.objects.get_or_create(label=...)\<close> returns the row with
  that label, inserting one with empty content when there is none, and says whether it
  inserted.
\<close>

definition get_or_create :: "string \<Rightarrow> world \<Rightarrow> (box \<times> bool) \<times> world" where
  "get_or_create l w =
     (case boxes w l of
        Some c \<Rightarrow> ((\<lparr>label = l, box_content = c\<rparr>, False), w)
      | None \<Rightarrow> ((\<lparr>label = l, box_content = []\<rparr>, True),
                 w\<lparr>boxes := (boxes w)(l \<mapsto> [])\<rparr>))"

text \<open>Modelled from the spec: \<^verbatim>\<open>box.save()\<close> writes the row back under its label.\<close>

definition box_save :: "box \<Rightarrow> world \<Rightarrow> world" where
  "box_save b w = w\<lparr>boxes := (boxes w)(label b \<mapsto> box_content b)\<rparr>"

text \<open>
  Modelled from the spec: \<^verbatim>\<open>purge_url(path)\<close> of the fastly application asks the CDN to
  drop one path, fire and forget; the world records the request.
\<close>

definition purge_url :: "string \<Rightarrow> world \<Rightarrow> world" where
  "purge_url path w = w\<lparr>purged := purged w @ [path]\<rparr>"

text \<open>
  Modelled from the spec: \<^verbatim>\<open>email.send()\<close> hands the message to the transport, once,
  with no retry; a transport failure is raised to the caller of \<^verbatim>\<open>send()\<close>. The call is
  recorded whether or not the transport accepts the message.
\<close>

definition email_send :: "env \<Rightarrow> email_message \<Rightarrow> world \<Rightarrow> (error + unit) \<times> world" where
  "email_send e m w =
     (let w' = w\<lparr>send_calls := send_calls w @ [m]\<rparr>
      in case transport e m of
           None \<Rightarrow> (Inr (), w')
         | Some why \<Rightarrow> (Inl (TransportError why), w'))"

subsection \<open>\<^verbatim>\<open>update_successstories_supernav\<close>\<close>

definition update_successstories_supernav ::
  "env \<Rightarrow> story \<Rightarrow> bool \<Rightarrow> kwargs \<Rightarrow> world \<Rightarrow> world" where
  "update_successstories_supernav e instance created kw w =
     (if truthy (kwargs_get kw ''raw'' (PyBool False)) then w
      else
        let w1 =
          (if is_published instance \<and> featured instance then
             let content' = render_to_string e ''successstories/supernav.html''
                              [(''story'', instance)];
                 ((b, _), wa) = get_or_create ''supernav-python-success-stories'' w;
                 b' = b\<lparr>box_content := content'\<rparr>;
                 wb = box_save b' wa
             in purge_url ''/box/supernav-python-success-stories/'' wb
           else w)
        in if is_published instance then purge_url (get_absolute_url e instance) w1
           else w1)"

subsection \<open>\<^verbatim>\<open>send_email_to_psf\<close>\<close>

definition nl :: string where
  "nl = [CHR 0x0A]"

text \<open>
  The body template with its eight fields filled in. The template is a triple-quoted
  literal whose first line break is escaped and whose last line is the indentation
  before the closing quotes.
\<close>

definition email_body :: "env \<Rightarrow> story \<Rightarrow> string" where
  "email_body e instance =
     ''Name: '' @ name instance @ nl @
     ''Company name: '' @ company_name instance @ nl @
     ''Company URL: '' @ company_url instance @ nl @
     ''Category: '' @ name (category instance) @ nl @
     ''Author: '' @ author instance @ nl @
     ''Author email: '' @ str_opt (author_email instance) @ nl @
     ''Pull quote:'' @ nl @ nl @
     pull_quote instance @ nl @ nl @
     ''Content:'' @ nl @ nl @
     markup_str e (content instance) @ nl @
     ''        ''"

definition psf_email :: "env \<Rightarrow> story \<Rightarrow> email_message" where
  "psf_email e instance =
     \<lparr>subject = ''New success story submission: '' @ name instance,
      body = email_body e instance,
      from_email = DEFAULT_FROM_EMAIL e,
      to = PSF_TO_EMAILS,
      headers = [(''Reply-To'', author_email instance)],
      content_subtype = ''html''\<rparr>"

definition send_email_to_psf ::
  "env \<Rightarrow> story \<Rightarrow> bool \<Rightarrow> kwargs \<Rightarrow> world \<Rightarrow> (error + unit) \<times> world" where
  "send_email_to_psf e instance created kw w =
     (if truthy (kwargs_get kw ''raw'' (PyBool False)) then (Inr (), w)
      else if \<not> is_published instance then email_send e (psf_email e instance) w
      else (Inr (), w))"

subsection \<open>Dispatch of the signal, and \<^verbatim>\<open>save\<close>\<close>

text \<open>
  Modelled from the spec: the dispatch of \<^verbatim>\<open>post_save\<close> is framework code. Both
  functions are registered for the sender \<^verbatim>\<open>Story\<close> by their \<^verbatim>\<open>@receiver\<close> decorators;
  they run synchronously, in the order of registration, with the same arguments, and an
  exception raised by one of them is not caught by the dispatcher.
\<close>

definition post_save_send ::
  "env \<Rightarrow> story \<Rightarrow> bool \<Rightarrow> kwargs \<Rightarrow> world \<Rightarrow> (error + unit) \<times> world" where
  "post_save_send e instance created kw w =
     (let w1 = update_successstories_supernav e instance created kw w
      in send_email_to_psf e instance created kw w1)"

text \<open>
  Modelled from the spec: the persistence layer stores a story under its slug, creating
  the row or replacing the one already there.
\<close>

definition persist :: "story \<Rightarrow> world \<Rightarrow> world" where
  "persist s w = w\<lparr>stories := (stories w)(slug s \<mapsto> s)\<rparr>"

text \<open>
  Modelled from the spec: saving a story is framework code. A save validates, then
  persists, then runs the post-save workflow inline before it returns; a validation
  error is reported before anything is written. The signal carries the bulk-load flag
  under the keyword \<^verbatim>\<open>raw\<close>.
\<close>

definition save :: "env \<Rightarrow> bool \<Rightarrow> story \<Rightarrow> world \<Rightarrow> (error + unit) \<times> world" where
  "save e raw_flag s w =
     (case clean s of
        Inl err \<Rightarrow> (Inl err, w)
      | Inr _ \<Rightarrow>
          let created = (stories w (slug s) = None);
              w1 = persist s w
          in post_save_send e s created [''raw'' \<mapsto> PyBool raw_flag] w1)"

subsection \<open>Values used to run the definitions\<close>

definition acme :: story where
  "acme = \<lparr>name = ''Acme'', slug = ''acme'',
           company_name = ''Acme Corp'', company_url = ''http://acme.example/'',
           company = None,
           category = \<lparr>name = ''Business'', slug = ''business''\<rparr>,
           author = ''Wile E.'', author_email = Some ''wile@acme.example'',
           pull_quote = ''It works.'',
           content = \<lparr>raw = ''We use Python.'', rendered = ''<p>We use Python.</p>''\<rparr>,
           is_published = False, featured = False, weight = 0, image = None\<rparr>"

definition acme_company :: company where
  "acme_company = \<lparr>name = ''Acme Holdings'', slug = ''acme-holdings'',
                    url = ''http://holdings.example/''\<rparr>"

text \<open>
  An environment whose resolver knows the two views of the application, the story
  detail page and the category list, each with a path of its own built from the slug.
\<close>

definition env0 :: env where
  "env0 = \<lparr>reverse = (\<lambda>view args.
                        case map_of args ''slug'' of
                          None \<Rightarrow> ''/''
                        | Some sl \<Rightarrow>
                            if view = ''success_story_detail''
                              then ''/success-stories/'' @ sl @ ''/''
                            else if view = ''success_story_list_category''
                              then ''/success-stories/category/'' @ sl @ ''/''
                            else ''/''),
           render_to_string = (\<lambda>template ctx. case map_of ctx ''story'' of
                                   Some st \<Rightarrow> ''<h4>'' @ name st @ ''</h4>''
                                 | None \<Rightarrow> []),
           markup_str = rendered,
           DEFAULT_FROM_EMAIL = ''noreply@python.org'',
           transport = (\<lambda>m. None)\<rparr>"

definition world0 :: world where
  "world0 = \<lparr>stories = Map.empty, boxes = Map.empty, purged = [], send_calls = []\<rparr>"

definition kw_plain :: kwargs where
  "kw_plain = [''raw'' \<mapsto> PyBool False]"

definition kw_raw :: kwargs where
  "kw_raw = [''raw'' \<mapsto> PyBool True]"

text \<open>A second story, published, with another slug.\<close>

definition globex :: story where
  "globex = acme\<lparr>name := ''Globex'', slug := ''globex-inc'', is_published := True\<rparr>"


text \<open>An environment whose mail transport refuses every message.\<close>

definition env_down :: env where
  "env_down = env0\<lparr>transport := (\<lambda>m. Some ''connection refused'')\<rparr>"

section \<open>Properties\<close>

subsection \<open>Decimal text of an integer\<close>

lemma digit_val_digit_char: "d < 10 \<Longrightarrow> digit_val (digit_char d) = d"
  by (simp add: digit_val_def digit_char_def)

lemma digit_char_not_minus: "d < 10 \<Longrightarrow> digit_char d \<noteq> CHR ''-''"
proof
  assume d: "d < 10" and eq: "digit_char d = CHR ''-''"
  from eq have "(of_char (digit_char d) :: nat) = of_char CHR ''-''" by simp
  with d show False by (simp add: digit_char_def)
qed

lemma read_nat_snoc: "read_nat (s @ [c]) = 10 * read_nat s + digit_val c"
  by (simp add: read_nat_def)

lemma read_nat_digits: "read_nat (digits_nat n) = n"
proof (induction n rule: digits_nat.induct)
  case (1 n)
  show ?case
  proof (cases "n < 10")
    case True
    then show ?thesis
      by (subst digits_nat.simps) (simp add: read_nat_def digit_val_digit_char)
  next
    case False
    with 1 have "read_nat (digits_nat (n div 10)) = n div 10" by simp
    with False show ?thesis
      by (subst digits_nat.simps) (simp add: read_nat_snoc digit_val_digit_char)
  qed
qed

lemma digits_nat_head: "\<exists>c cs. digits_nat n = c # cs \<and> c \<noteq> CHR ''-''"
proof (induction n rule: digits_nat.induct)
  case (1 n)
  show ?case
  proof (cases "n < 10")
    case True
    then show ?thesis
      by (subst digits_nat.simps) (simp add: digit_char_not_minus)
  next
    case False
    with 1 obtain c cs where "digits_nat (n div 10) = c # cs" "c \<noteq> CHR ''-''" by auto
    with False show ?thesis
      by (subst digits_nat.simps) simp
  qed
qed

lemma read_int_str_int: "read_int (str_int i) = i"
proof (cases "i < 0")
  case True
  then show ?thesis by (simp add: read_int_def str_int_def read_nat_digits)
next
  case False
  obtain c cs where h: "digits_nat (nat i) = c # cs" "c \<noteq> CHR ''-''"
    using digits_nat_head by blast
  have "read_nat (c # cs) = nat i" using read_nat_digits [of "nat i"] h by simp
  with False h show ?thesis by (simp add: read_int_def str_int_def)
qed

subsection \<open>Validation\<close>

text \<open>
  C1, as the specification states it: a featured story of weight 0 is rejected with the
  message "featured story cannot have zero weight". The story \<open>acme\<close> made featured has
  weight 0, and the error \<open>clean\<close> raises for it carries another message.
\<close>

theorem clean_featured_zero_message_counterexample:
  "featured (acme\<lparr>featured := True\<rparr>) \<and> weight (acme\<lparr>featured := True\<rparr>) = 0 \<and>
   clean (acme\<lparr>featured := True\<rparr>) \<noteq>
     Inl (ValidationError ''featured story cannot have zero weight'')"
  by (simp add: clean_def acme_def)

text \<open>
  C1, amended: a story that is featured and has weight 0 is rejected with the
  validation error whose message is "Cannot be a featured story with weight==0"; a
  story of weight 0 that is not featured passes validation.
\<close>

theorem clean_featured_zero_weight:
  "(featured s \<and> weight s = 0 \<longrightarrow>
      clean s = Inl (ValidationError ''Cannot be a featured story with weight==0'')) \<and>
   (\<not> featured s \<and> weight s = 0 \<longrightarrow> clean s = Inr ())"
  by (simp add: clean_def)

theorem clean_featured_zero_weight_witness:
  "featured (acme\<lparr>featured := True\<rparr>) \<and> weight (acme\<lparr>featured := True\<rparr>) = 0 \<and>
   clean (acme\<lparr>featured := True\<rparr>) =
     Inl (ValidationError ''Cannot be a featured story with weight==0'') \<and>
   \<not> featured acme \<and> weight acme = 0 \<and> clean acme = Inr ()"
  using clean_featured_zero_weight [of "acme\<lparr>featured := True\<rparr>"]
        clean_featured_zero_weight [of acme]
  by (simp add: acme_def)

text \<open>
  C2: a story whose weight is greater than 100 is rejected with the validation error
  "weight cannot exceed 100", whatever \<open>featured\<close> is; a story of weight exactly 100
  passes validation.
\<close>

theorem clean_weight_over_100:
  "(weight s > 100 \<longrightarrow> clean s = Inl (ValidationError ''weight cannot exceed 100'')) \<and>
   (weight s = 100 \<longrightarrow> clean s = Inr ())"
  by (simp add: clean_def)

theorem clean_weight_over_100_witness:
  "weight (acme\<lparr>weight := 101\<rparr>) > 100 \<and>
   clean (acme\<lparr>weight := 101\<rparr>) = Inl (ValidationError ''weight cannot exceed 100'') \<and>
   weight (acme\<lparr>weight := 101, featured := True\<rparr>) > 100 \<and>
   clean (acme\<lparr>weight := 101, featured := True\<rparr>) =
     Inl (ValidationError ''weight cannot exceed 100'') \<and>
   weight (acme\<lparr>weight := 100, featured := True\<rparr>) = 100 \<and>
   clean (acme\<lparr>weight := 100, featured := True\<rparr>) = Inr ()"
  using clean_weight_over_100 [of "acme\<lparr>weight := 101\<rparr>"]
        clean_weight_over_100 [of "acme\<lparr>weight := 101, featured := True\<rparr>"]
        clean_weight_over_100 [of "acme\<lparr>weight := 100, featured := True\<rparr>"]
  by (simp add: acme_def)

text \<open>
  C10: validation has no lower bound on the weight. A story whose weight is negative
  passes validation, featured or not.
\<close>

theorem clean_negative_weight_passes:
  "weight s < 0 \<Longrightarrow> clean s = Inr ()"
  by (simp add: clean_def)

theorem clean_negative_weight_passes_witness:
  "weight (acme\<lparr>featured := True, weight := - 1\<rparr>) < 0 \<and>
   featured (acme\<lparr>featured := True, weight := - 1\<rparr>) \<and>
   clean (acme\<lparr>featured := True, weight := - 1\<rparr>) = Inr ()"
proof -
  have h: "weight (acme\<lparr>featured := True, weight := - 1\<rparr>) < 0" by (simp add: acme_def)
  show ?thesis
    using h clean_negative_weight_passes [OF h] by (simp add: acme_def)
qed

subsection \<open>Accessors\<close>

text \<open>
  C6: when the company reference is set, \<open>get_company_name\<close> and \<open>get_company_url\<close>
  return the name and the url of the linked company; when it is not set they return
  the inline fields \<open>company_name\<close> and \<open>company_url\<close>.
\<close>

theorem get_company_resolution:
  "(company s = Some c \<longrightarrow> get_company_name s = name c \<and> get_company_url s = url c) \<and>
   (company s = None \<longrightarrow>
      get_company_name s = company_name s \<and> get_company_url s = company_url s)"
  by (simp add: get_company_name_def get_company_url_def)

theorem get_company_resolution_witness:
  "company (acme\<lparr>company := Some acme_company\<rparr>) = Some acme_company \<and>
   get_company_name (acme\<lparr>company := Some acme_company\<rparr>) = ''Acme Holdings'' \<and>
   get_company_url (acme\<lparr>company := Some acme_company\<rparr>) = ''http://holdings.example/'' \<and>
   company acme = None \<and>
   get_company_name acme = ''Acme Corp'' \<and>
   get_company_url acme = ''http://acme.example/''"
  using get_company_resolution [of "acme\<lparr>company := Some acme_company\<rparr>" acme_company]
        get_company_resolution [of acme acme_company]
  by (simp add: acme_def acme_company_def)

text \<open>
  C7, as the specification states it: the result is the decimal text of the weight
  immediately followed by a percent sign. For weight 11 that would be "11%"; the
  accessor returns "11 %".
\<close>

theorem get_weight_display_adjacent_counterexample:
  "get_weight_display (acme\<lparr>weight := 11\<rparr>) = ''11 %'' \<and>
   get_weight_display (acme\<lparr>weight := 11\<rparr>) \<noteq> ''11%''"
  by code_simp

text \<open>
  C7, amended: the result is the decimal text of the weight, then one space, then a
  percent sign. The decimal text is the one that reads back as the weight.
\<close>

theorem get_weight_display_format:
  "get_weight_display s = str_int (weight s) @ '' %'' \<and>
   read_int (str_int (weight s)) = weight s"
  by (simp add: get_weight_display_def read_int_str_int)

subsection \<open>What each receiver changes\<close>

lemma supernav_featured:
  assumes "\<not> truthy (kwargs_get kw ''raw'' (PyBool False))" "is_published s" "featured s"
  shows "update_successstories_supernav e s c kw w =
     w\<lparr>boxes := (boxes w)(''supernav-python-success-stories'' \<mapsto>
            render_to_string e ''successstories/supernav.html'' [(''story'', s)]),
       purged := purged w @ [''/box/supernav-python-success-stories/'', get_absolute_url e s]\<rparr>"
  using assms
  by (simp add: update_successstories_supernav_def get_or_create_def box_save_def
      purge_url_def Let_def split: option.splits prod.splits)

lemma supernav_plain:
  assumes "\<not> truthy (kwargs_get kw ''raw'' (PyBool False))" "is_published s" "\<not> featured s"
  shows "update_successstories_supernav e s c kw w =
     w\<lparr>purged := purged w @ [get_absolute_url e s]\<rparr>"
  using assms
  by (simp add: update_successstories_supernav_def purge_url_def)

lemma supernav_unpublished:
  assumes "\<not> is_published s"
  shows "update_successstories_supernav e s c kw w = w"
  using assms
  by (simp add: update_successstories_supernav_def)

lemma supernav_calls:
  "send_calls (update_successstories_supernav e s c kw w) = send_calls w"
  by (simp add: update_successstories_supernav_def get_or_create_def box_save_def
      purge_url_def Let_def split: option.splits prod.splits)

lemma email_send_frame:
  "stories (snd (email_send e m w)) = stories w \<and>
   boxes (snd (email_send e m w)) = boxes w \<and>
   purged (snd (email_send e m w)) = purged w \<and>
   send_calls (snd (email_send e m w)) = send_calls w @ [m]"
  by (simp add: email_send_def Let_def split: option.splits)

lemma send_email_frame:
  "stories (snd (send_email_to_psf e s c kw w)) = stories w \<and>
   boxes (snd (send_email_to_psf e s c kw w)) = boxes w \<and>
   purged (snd (send_email_to_psf e s c kw w)) = purged w"
  by (simp add: send_email_to_psf_def email_send_frame)

lemma send_email_calls:
  "send_calls (snd (send_email_to_psf e s c kw w)) =
     (if \<not> truthy (kwargs_get kw ''raw'' (PyBool False)) \<and> \<not> is_published s
      then send_calls w @ [psf_email e s] else send_calls w)"
  by (simp add: send_email_to_psf_def email_send_frame)


subsection \<open>The notification email\<close>

text \<open>
  C3: on a save that is not raw, for a story that is not published, the email receiver
  calls \<open>send()\<close> exactly once, on a message whose subject is "New success story
  submission: " followed by the story's name, whose recipients are the two maintainer
  addresses and whose Reply-To header is the story's \<open>author_email\<close>. This does not
  depend on \<open>created\<close>, so it happens on the first save and on every later one. For a
  published story the email receiver does nothing. The other receiver never sends, so
  the count is that of the whole save. ("Sent" is the call of \<open>send()\<close>; what a failing
  transport does to the save is C8.)
\<close>

theorem notification_email_sent:
  assumes "\<not> truthy (kwargs_get kw ''raw'' (PyBool False))"
  shows "(\<not> is_published s \<longrightarrow>
           (\<exists>m. send_calls (snd (send_email_to_psf e s c kw w)) = send_calls w @ [m] \<and>
                subject m = ''New success story submission: '' @ name s \<and>
                to m = [''ewa@python.org'', ''berker.peksag@gmail.com''] \<and>
                map_of (headers m) ''Reply-To'' = Some (author_email s))) \<and>
         (is_published s \<longrightarrow> send_email_to_psf e s c kw w = (Inr (), w)) \<and>
         send_calls (update_successstories_supernav e s c kw w) = send_calls w"
  using assms
  by (simp add: send_email_calls supernav_calls psf_email_def PSF_TO_EMAILS_def)
     (simp add: send_email_to_psf_def)

theorem notification_email_sent_witness:
  "\<not> truthy (kwargs_get kw_plain ''raw'' (PyBool False)) \<and>
   \<not> is_published acme \<and>
   (\<exists>m. send_calls (snd (send_email_to_psf env0 acme True kw_plain world0)) = [m] \<and>
        subject m = ''New success story submission: Acme'' \<and>
        to m = [''ewa@python.org'', ''berker.peksag@gmail.com''] \<and>
        map_of (headers m) ''Reply-To'' = Some (Some ''wile@acme.example'')) \<and>
   is_published (acme\<lparr>is_published := True\<rparr>) \<and>
   send_email_to_psf env0 (acme\<lparr>is_published := True\<rparr>) False kw_plain world0 =
     (Inr (), world0)"
proof -
  have h: "\<not> truthy (kwargs_get kw_plain ''raw'' (PyBool False))"
    by (simp add: kw_plain_def kwargs_get_def)
  have u: "\<not> is_published acme" and n: "name acme = ''Acme''"
    and a: "author_email acme = Some ''wile@acme.example''" and z: "send_calls world0 = []"
    by (simp_all add: acme_def world0_def)
  have p: "is_published (acme\<lparr>is_published := True\<rparr>)" by simp
  from notification_email_sent [OF h, of acme env0 True world0] u n a z
  have 1: "\<exists>m. send_calls (snd (send_email_to_psf env0 acme True kw_plain world0)) = [m] \<and>
        subject m = ''New success story submission: Acme'' \<and>
        to m = [''ewa@python.org'', ''berker.peksag@gmail.com''] \<and>
        map_of (headers m) ''Reply-To'' = Some (Some ''wile@acme.example'')"
    by simp
  from notification_email_sent [OF h, of "acme\<lparr>is_published := True\<rparr>" env0 False world0] p
  have 2: "send_email_to_psf env0 (acme\<lparr>is_published := True\<rparr>) False kw_plain world0 =
             (Inr (), world0)"
    by simp
  from h u p 1 2 show ?thesis by blast
qed



subsection \<open>The supernav box and the cache\<close>

text \<open>
  C4: on a save that is not raw. If the story is published and featured, the box
  labelled "supernav-python-success-stories" holds the rendered template afterwards
  (created or overwritten) and exactly two purges are requested, the box path
  "/box/supernav-python-success-stories/" and then the story's own detail URL, which is
  the path the resolver gives for the view \<^verbatim>\<open>success_story_detail\<close> at the story's slug.
  If it is published and not featured, the only change is one purge, of that detail
  URL. If it is not published, nothing changes. The email receiver touches neither the
  boxes nor the purges, so these are the cache actions of the whole save.
\<close>

theorem supernav_cache_actions:
  assumes "\<not> truthy (kwargs_get kw ''raw'' (PyBool False))"
  shows "(is_published s \<and> featured s \<longrightarrow>
            update_successstories_supernav e s c kw w =
              w\<lparr>boxes := (boxes w)(''supernav-python-success-stories'' \<mapsto>
                   render_to_string e ''successstories/supernav.html'' [(''story'', s)]),
                purged := purged w @
                   [''/box/supernav-python-success-stories/'',
                    reverse e ''success_story_detail'' [(''slug'', slug s)]]\<rparr>) \<and>
         (is_published s \<and> \<not> featured s \<longrightarrow>
            update_successstories_supernav e s c kw w =
              w\<lparr>purged := purged w @
                   [reverse e ''success_story_detail'' [(''slug'', slug s)]]\<rparr>) \<and>
         (\<not> is_published s \<longrightarrow> update_successstories_supernav e s c kw w = w) \<and>
         boxes (snd (send_email_to_psf e s c kw w)) = boxes w \<and>
         purged (snd (send_email_to_psf e s c kw w)) = purged w"
  using assms
  by (simp add: send_email_frame supernav_featured supernav_plain supernav_unpublished
      get_absolute_url_def)

theorem supernav_cache_actions_witness:
  "\<not> truthy (kwargs_get kw_plain ''raw'' (PyBool False)) \<and>
   is_published (acme\<lparr>is_published := True, featured := True, weight := 50\<rparr>) \<and>
   featured (acme\<lparr>is_published := True, featured := True, weight := 50\<rparr>) \<and>
   boxes (update_successstories_supernav env0
            (acme\<lparr>is_published := True, featured := True, weight := 50\<rparr>)
            False kw_plain world0) ''supernav-python-success-stories'' =
     Some ''<h4>Acme</h4>'' \<and>
   purged (update_successstories_supernav env0
            (acme\<lparr>is_published := True, featured := True, weight := 50\<rparr>)
            False kw_plain world0) =
     [''/box/supernav-python-success-stories/'', ''/success-stories/acme/''] \<and>
   is_published globex \<and> \<not> featured globex \<and>
   update_successstories_supernav env0 globex False kw_plain world0 =
     world0\<lparr>purged := [''/success-stories/globex-inc/'']\<rparr> \<and>
   \<not> is_published acme \<and>
   update_successstories_supernav env0 acme True kw_plain world0 = world0"
proof -
  let ?f = "acme\<lparr>is_published := True, featured := True, weight := 50\<rparr>"
  have h: "\<not> truthy (kwargs_get kw_plain ''raw'' (PyBool False))"
    by (simp add: kw_plain_def kwargs_get_def)
  have pf: "is_published ?f" "featured ?f" by simp_all
  have r: "render_to_string env0 ''successstories/supernav.html'' [(''story'', ?f)] =
             ''<h4>Acme</h4>''"
    by (simp add: env0_def acme_def)
  have g: "reverse env0 ''success_story_detail'' [(''slug'', slug ?f)] =
             ''/success-stories/acme/''"
      "reverse env0 ''success_story_detail'' [(''slug'', slug globex)] =
             ''/success-stories/globex-inc/''"
    by (simp_all add: env0_def acme_def globex_def)
  have pg: "is_published globex" "\<not> featured globex"
    by (simp_all add: globex_def acme_def)
  have f: "\<not> is_published acme" "purged world0 = []"
    by (simp_all add: acme_def world0_def)
  from supernav_cache_actions [OF h, of ?f env0 False world0] pf r g f
  have 1: "boxes (update_successstories_supernav env0 ?f False kw_plain world0)
             ''supernav-python-success-stories'' = Some ''<h4>Acme</h4>''"
    "purged (update_successstories_supernav env0 ?f False kw_plain world0) =
       [''/box/supernav-python-success-stories/'', ''/success-stories/acme/'']"
    by simp_all
  from supernav_cache_actions [OF h, of globex env0 False world0] pg g f
  have 2: "update_successstories_supernav env0 globex False kw_plain world0 =
             world0\<lparr>purged := [''/success-stories/globex-inc/'']\<rparr>"
    by simp
  from supernav_cache_actions [OF h, of acme env0 True world0] f
  have 3: "update_successstories_supernav env0 acme True kw_plain world0 = world0"
    by simp
  from h pf pg f 1 2 3 show ?thesis by blast
qed

subsection \<open>Raw saves\<close>

text \<open>
  C5: when the \<open>raw\<close> keyword of the signal is true, neither receiver does anything,
  whatever the story's fields are: the supernav receiver returns the world unchanged
  (no box write, no purge), and the email receiver returns normally with the world
  unchanged (no email).
\<close>

theorem raw_save_no_effects:
  assumes "truthy (kwargs_get kw ''raw'' (PyBool False))"
  shows "update_successstories_supernav e s c kw w = w \<and>
         send_email_to_psf e s c kw w = (Inr (), w)"
  using assms
  by (simp add: update_successstories_supernav_def send_email_to_psf_def)

theorem raw_save_no_effects_witness:
  "truthy (kwargs_get kw_raw ''raw'' (PyBool False)) \<and>
   update_successstories_supernav env0
     (acme\<lparr>is_published := True, featured := True, weight := 50\<rparr>) True kw_raw world0 =
     world0 \<and>
   send_email_to_psf env0 acme True kw_raw world0 = (Inr (), world0)"
proof -
  have h: "truthy (kwargs_get kw_raw ''raw'' (PyBool False))"
    by (simp add: kw_raw_def kwargs_get_def)
  from raw_save_no_effects
         [OF h, of env0 "acme\<lparr>is_published := True, featured := True, weight := 50\<rparr>"
            True world0]
       raw_save_no_effects [OF h, of env0 acme True world0] h
  show ?thesis by simp
qed

subsection \<open>A failing mail transport\<close>

text \<open>
  C8: when the transport refuses the notification of an unpublished story, the email
  receiver does not catch the error: it returns it. A save of that story (one that
  passes validation, not raw) then ends with the same error, and the world it leaves
  has the story stored.
\<close>

theorem transport_failure_propagates:
  assumes "clean s = Inr ()" and "\<not> is_published s"
    and "transport e (psf_email e s) = Some why"
    and "\<not> truthy (kwargs_get kw ''raw'' (PyBool False))"
  shows "fst (send_email_to_psf e s c kw w) = Inl (TransportError why) \<and>
         fst (save e False s w) = Inl (TransportError why) \<and>
         stories (snd (save e False s w)) (slug s) = Some s"
  using assms
  by (simp add: save_def post_save_send_def supernav_unpublished send_email_to_psf_def
      email_send_def persist_def kwargs_get_def)

theorem transport_failure_propagates_witness:
  "clean acme = Inr () \<and> \<not> is_published acme \<and>
   transport env_down (psf_email env_down acme) = Some ''connection refused'' \<and>
   \<not> truthy (kwargs_get kw_plain ''raw'' (PyBool False)) \<and>
   fst (send_email_to_psf env_down acme True kw_plain world0) =
     Inl (TransportError ''connection refused'') \<and>
   fst (save env_down False acme world0) = Inl (TransportError ''connection refused'') \<and>
   stories world0 ''acme'' = None \<and>
   stories (snd (save env_down False acme world0)) ''acme'' = Some acme"
proof -
  have c: "clean acme = Inr ()" by (simp add: clean_def acme_def)
  have u: "\<not> is_published acme" by (simp add: acme_def)
  have t: "transport env_down (psf_email env_down acme) = Some ''connection refused''"
    by (simp add: env_down_def)
  have h: "\<not> truthy (kwargs_get kw_plain ''raw'' (PyBool False))"
    by (simp add: kw_plain_def kwargs_get_def)
  have sl: "slug acme = ''acme''" by (simp add: acme_def)
  have z: "stories world0 ''acme'' = None" by (simp add: world0_def)
  from transport_failure_propagates [OF c u t h, of True world0] sl c u t h z
  show ?thesis by simp
qed

end
